theory Spec2Isabelle
  imports Complex_Main "HOL-Library.Word" "HOL-Library.Sublist"
begin

section \<open>Machine types\<close>

type_synonym u64 = "64 word"
type_synonym u32 = "32 word"
type_synonym byte = "8 word"

section \<open>The C library functions that server.cpp calls\<close>

text \<open>
  A C string is the list of its characters before the terminating NUL. A pointer into a
  string (the result of \<open>strstr\<close>, \<open>strchr\<close>, \<open>dash + 1\<close>) is the suffix that starts
  there; a null pointer is \<open>None\<close>.
\<close>

definition isspace_c :: "char \<Rightarrow> bool" where
  "isspace_c c \<longleftrightarrow> c = CHR '' '' \<or> (9 \<le> (of_char c :: nat) \<and> (of_char c :: nat) \<le> 13)"

definition isdigit_c :: "char \<Rightarrow> bool" where
  "isdigit_c c \<longleftrightarrow> 48 \<le> (of_char c :: nat) \<and> (of_char c :: nat) \<le> 57"

definition digit_val :: "char \<Rightarrow> nat" where
  "digit_val c = (of_char c :: nat) - 48"

definition dec_value :: "string \<Rightarrow> nat" where
  "dec_value ds = foldl (\<lambda>a c. 10 * a + digit_val c) 0 ds"

text \<open>
  \<open>strto_parts s\<close> is the common front end of \<open>strtoull\<close> and \<open>strtol\<close> in base 10:
  leading white space is skipped, one optional sign is read, and the longest run of
  decimal digits that follows is the subject sequence. The result is the sign and the
  (unbounded) value of the digits; no digits give the value 0.
\<close>

definition strto_parts :: "string \<Rightarrow> bool \<times> nat" where
  "strto_parts s =
     (let t = dropWhile isspace_c s;
          neg = (case t of [] \<Rightarrow> False | c # _ \<Rightarrow> c = CHR ''-'');
          u = (case t of [] \<Rightarrow> [] | c # cs \<Rightarrow> if c = CHR ''-'' \<or> c = CHR ''+'' then cs else t)
      in (neg, dec_value (takeWhile isdigit_c u)))"

text \<open>
  \<open>strtoull(s, nullptr, 10)\<close>: a value beyond \<open>ULLONG_MAX\<close> gives \<open>ULLONG_MAX\<close>; a minus
  sign negates the value in the unsigned type.
\<close>

definition strtoull :: "string \<Rightarrow> u64" where
  "strtoull s =
     (case strto_parts s of (neg, v) \<Rightarrow>
        if v > 2 ^ 64 - 1 then - 1
        else if neg then - (word_of_nat v) else word_of_nat v)"

text \<open>
  \<open>atoi(s)\<close> is \<open>(int) strtol(s, nullptr, 10)\<close>: the \<open>long\<close> result saturates at
  \<open>LONG_MIN\<close> and \<open>LONG_MAX\<close> (64 bits) and the conversion to \<open>int\<close> keeps the low 32
  bits. The result is given as the 32-bit pattern, which is also the value of the cast
  \<open>(unsigned) atoi(s)\<close>.
\<close>

definition strtol :: "string \<Rightarrow> int" where
  "strtol s =
     (case strto_parts s of (neg, v) \<Rightarrow>
        if neg then (if int v > 2 ^ 63 then - (2 ^ 63) else - int v)
        else (if int v > 2 ^ 63 - 1 then 2 ^ 63 - 1 else int v))"

definition atoi :: "string \<Rightarrow> u32" where
  "atoi s = word_of_int (strtol s)"

text \<open>\<open>strstr(hay, needle)\<close>: the first occurrence of \<open>needle\<close> in \<open>hay\<close>, or null.\<close>

fun strstr :: "string \<Rightarrow> string \<Rightarrow> string option" where
  "strstr [] needle = (if needle = [] then Some [] else None)"
| "strstr (c # cs) needle =
     (if take (length needle) (c # cs) = needle then Some (c # cs) else strstr cs needle)"

text \<open>\<open>strchr(s, c)\<close> for a character \<open>c\<close> other than NUL.\<close>

fun strchr :: "string \<Rightarrow> char \<Rightarrow> string option" where
  "strchr [] c = None"
| "strchr (x # xs) c = (if x = c then Some (x # xs) else strchr xs c)"

text \<open>\<open>printf("%" PRIu64)\<close>: the decimal digits of an unsigned value.\<close>

fun dec_digits :: "nat \<Rightarrow> string" where
  "dec_digits n =
     (if n < 10 then [''0123456789'' ! n]
      else dec_digits (n div 10) @ [''0123456789'' ! (n mod 10)])"

declare dec_digits.simps [simp del]

definition PRIu64 :: "u64 \<Rightarrow> string" where
  "PRIu64 w = dec_digits (unat w)"

section \<open>IEEE doubles, as far as the meter needs them\<close>

text \<open>
  The meter computes in \<open>double\<close>. A finite double is represented by the rational it
  denotes (rounding is not modelled); the special values of IEEE 754 are kept, because
  a division by 0.0 does not trap but produces an infinity or a NaN. The conversion of
  an unsigned integer is 0.0 exactly when the integer is 0.
\<close>

datatype dbl = Fin rat | PInf | NInf | NaN

fun ddiv :: "dbl \<Rightarrow> dbl \<Rightarrow> dbl" where
  "ddiv NaN _ = NaN"
| "ddiv _ NaN = NaN"
| "ddiv (Fin a) (Fin b) =
     (if b = 0 then (if a = 0 then NaN else if a > 0 then PInf else NInf) else Fin (a / b))"
| "ddiv (Fin a) PInf = Fin 0"
| "ddiv (Fin a) NInf = Fin 0"
| "ddiv PInf (Fin b) = (if b \<ge> 0 then PInf else NInf)"
| "ddiv NInf (Fin b) = (if b \<ge> 0 then NInf else PInf)"
| "ddiv PInf PInf = NaN"
| "ddiv PInf NInf = NaN"
| "ddiv NInf PInf = NaN"
| "ddiv NInf NInf = NaN"

text \<open>\<open>x > y\<close> and \<open>x >= y\<close> on doubles: false whenever an operand is a NaN.\<close>

fun dgt :: "dbl \<Rightarrow> dbl \<Rightarrow> bool" where
  "dgt NaN _ = False"
| "dgt _ NaN = False"
| "dgt (Fin a) (Fin b) = (a > b)"
| "dgt PInf PInf = False"
| "dgt PInf _ = True"
| "dgt _ PInf = False"
| "dgt NInf _ = False"
| "dgt (Fin a) NInf = True"

fun dge :: "dbl \<Rightarrow> dbl \<Rightarrow> bool" where
  "dge NaN _ = False"
| "dge _ NaN = False"
| "dge x y = (x = y \<or> dgt x y)"

definition u64_to_dbl :: "u64 \<Rightarrow> dbl" where
  "u64_to_dbl w = Fin (of_nat (unat w))"

definition u32_to_dbl :: "u32 \<Rightarrow> dbl" where
  "u32_to_dbl w = Fin (of_nat (unat w))"

section \<open>The per-request state and the body reader\<close>

text \<open>
  \<open>struct FileState\<close>. The handle \<open>file\<close> (here \<open>file_ptr\<close>) is the byte sequence that
  can be read through it (\<open>None\<close> is the null pointer); \<open>last_print\<close> is a reading of the steady clock in
  seconds.
\<close>

record FileState =
  file_ptr :: "byte list option"
  offset_base :: u64
  file_size :: u64
  total_sent :: u64
  since_last :: u64
  last_print :: rat
  estimated_bitrate :: u64
  target_fps :: u32

text \<open>The line that \<open>file_reader\<close> prints: MB/s, estimated frames per second, total MB.\<close>

record stats_line =
  mbps :: dbl
  frames_per_sec :: dbl
  total_mb :: dbl

datatype read_result = END_OF_STREAM | Data "byte list"

text \<open>
  \<open>fseeko(f, (off_t) off, SEEK_SET)\<close> on a regular file: the conversion to the signed
  \<open>off_t\<close> keeps the bit pattern, a negative offset is refused, any other position is
  accepted (also one beyond the end of the file).
\<close>

definition fseeko :: "u64 \<Rightarrow> nat option" where
  "fseeko off = (if sint off < 0 then None else Some (unat off))"

text \<open>\<open>fread(buf, 1, max, f)\<close> at position \<open>p\<close>: the bytes that are there, at most \<open>max\<close>.\<close>

definition fread :: "byte list \<Rightarrow> nat \<Rightarrow> nat \<Rightarrow> byte list" where
  "fread contents p n = take n (drop p contents)"

definition bytes_per_frame :: "u64 \<Rightarrow> u32 \<Rightarrow> dbl" where
  "bytes_per_frame bitrate fps = ddiv (ddiv (u64_to_dbl bitrate) (u32_to_dbl fps)) (Fin 8)"

definition estimate_fps :: "u64 \<Rightarrow> dbl \<Rightarrow> u64 \<Rightarrow> u32 \<Rightarrow> dbl" where
  "estimate_fps b elapsed bitrate fps =
     (let bpf = bytes_per_frame bitrate fps
      in if dgt bpf (Fin 0) then ddiv (ddiv (u64_to_dbl b) elapsed) bpf else Fin 0)"

text \<open>
  \<open>file_reader(cls, pos, buf, max)\<close> with \<open>max = n\<close>, called at clock reading \<open>now\<close>. It returns what the
  transport gets, the updated state and the line printed, if any.
\<close>

definition file_reader ::
  "FileState \<Rightarrow> u64 \<Rightarrow> nat \<Rightarrow> rat \<Rightarrow> read_result \<times> FileState \<times> stats_line option" where
  "file_reader s pos n now =
     (case file_ptr s of
        None \<Rightarrow> (END_OF_STREAM, s, None)
      | Some contents \<Rightarrow>
     (case fseeko (offset_base s + pos) of
        None \<Rightarrow> (END_OF_STREAM, s, None)
      | Some p \<Rightarrow>
          let bs = fread contents p n; r = length bs in
          if r = 0 then (END_OF_STREAM, s, None)
          else
            let s1 = s\<lparr>total_sent := total_sent s + word_of_nat r,
                       since_last := since_last s + word_of_nat r\<rparr>;
                elapsed = Fin (now - last_print s1)
            in if dge elapsed (Fin (45 / 100)) then
                 let b = since_last s1;
                     line = \<lparr>mbps = ddiv (ddiv (u64_to_dbl b) (Fin (1024 * 1024))) elapsed,
                             frames_per_sec =
                               estimate_fps b elapsed (estimated_bitrate s1) (target_fps s1),
                             total_mb = ddiv (u64_to_dbl (total_sent s1)) (Fin (1024 * 1024))\<rparr>
                 in (Data bs, s1\<lparr>since_last := 0, last_print := now\<rparr>, Some line)
               else (Data bs, s1, None)))"

section \<open>What the handler does to the outside world\<close>

datatype event =
    Ev_stat string
  | Ev_fopen string bool
  | Ev_fclose
  | Ev_new_state
  | Ev_delete_state

text \<open>File handles that are open, and states that are allocated, after a run of events.\<close>

fun open_handles :: "event list \<Rightarrow> int" where
  "open_handles [] = 0"
| "open_handles (Ev_fopen p ok # es) = (if ok then 1 else 0) + open_handles es"
| "open_handles (Ev_fclose # es) = open_handles es - 1"
| "open_handles (e # es) = open_handles es"

fun live_states :: "event list \<Rightarrow> int" where
  "live_states [] = 0"
| "live_states (Ev_new_state # es) = 1 + live_states es"
| "live_states (Ev_delete_state # es) = live_states es - 1"
| "live_states (e # es) = live_states es"

text \<open>\<open>file_free(cls)\<close> for a non-null state: the handle is closed, the state deleted.\<close>

definition file_free :: "FileState \<Rightarrow> event list" where
  "file_free s = (if file_ptr s \<noteq> None then [Ev_fclose] else []) @ [Ev_delete_state]"

section \<open>The request handler\<close>

definition MOVIE_DIR :: string where
  "MOVIE_DIR = ''/home/lucca/Movies''"

datatype MHD_Result = MHD_NO | MHD_YES

definition MHD_HTTP_OK :: nat where "MHD_HTTP_OK = 200"
definition MHD_HTTP_PARTIAL_CONTENT :: nat where "MHD_HTTP_PARTIAL_CONTENT = 206"

text \<open>
  The arguments \<open>url\<close> and \<open>method\<close> (here \<open>http_method\<close>) of the handler, and what it
  reads from the connection: \<open>MHD_lookup_connection_value\<close> for the query arguments
  \<open>bitrate\<close> and \<open>fps\<close> and for the header \<open>Range\<close> (null when absent).
\<close>

record request =
  url :: string
  http_method :: string
  arg_bitrate :: "string option"
  arg_fps :: "string option"
  hdr_range :: "string option"

text \<open>
  The surroundings of one call: \<open>stat\<close> (whether the path is a regular file, and its
  \<open>st_size\<close> as converted to \<open>uint64_t\<close>), \<open>fopen\<close> (the bytes behind the handle),
  whether \<open>MHD_create_response_from_callback\<close> returns a response, what
  \<open>MHD_queue_response\<close> returns, and the steady clock.
\<close>

record sys =
  stat_file :: "string \<Rightarrow> (bool \<times> u64) option"
  fopen_file :: "string \<Rightarrow> byte list option"
  create_ok :: bool
  queue_ret :: MHD_Result
  clock :: rat

text \<open>
  The response given to \<open>MHD_queue_response\<close>: the status, the size passed to
  \<open>MHD_create_response_from_callback\<close> (the transport's Content-Length), the headers
  added, and the state the reader callback works on.
\<close>

record response =
  status :: nat
  content_length :: u64
  headers :: "(string \<times> string) list"
  reader_state :: FileState

record outcome =
  ret :: MHD_Result
  queued :: "response option"
  events :: "event list"

definition contains_dotdot :: "string \<Rightarrow> bool" where
  "contains_dotdot p = (strstr p ''..'' \<noteq> None)"

text \<open>The test \<open>if (strstr(url, ext))\<close>: the pointer returned is not null.\<close>

definition has :: "string \<Rightarrow> string \<Rightarrow> bool" where
  "has u ext = (strstr u ext \<noteq> None)"

text \<open>Lines 190 to 212: the chain that picks the MIME type.\<close>

definition mime_type :: "string \<Rightarrow> string" where
  "mime_type u =
     (if has u ''.mp4'' then ''video/mp4''
      else if has u ''.m3u8'' then ''application/x-mpegURL''
      else if has u ''.ts'' then ''video/mp2t''
      else if has u ''.html'' then ''text/html; charset=utf-8''
      else if has u ''.js'' then ''application/javascript''
      else if has u ''.css'' then ''text/css''
      else if has u ''.jpg'' \<or> has u ''.jpeg'' then ''image/jpeg''
      else if has u ''.png'' then ''image/png''
      else if has u ''.gif'' then ''image/gif''
      else if has u ''.vtt'' then ''text/vtt; charset=utf-8''
      else if has u ''.srt'' then ''application/x-subrip''
      else ''application/octet-stream'')"

text \<open>Lines 125 to 130: the query arguments.\<close>

definition query_bitrate :: "string option \<Rightarrow> u64" where
  "query_bitrate brs = (case brs of Some v \<Rightarrow> strtoull v | None \<Rightarrow> 8000000)"

definition query_fps :: "string option \<Rightarrow> u32" where
  "query_fps fps_arg = (case fps_arg of Some v \<Rightarrow> atoi v | None \<Rightarrow> 60)"

text \<open>
  Lines 135 to 166: the Range header. The result is \<open>None\<close> where the handler closes the
  file and returns \<open>MHD_NO\<close>, and otherwise \<open>start\<close>, \<open>end\<close> and \<open>is_partial\<close>.
\<close>

definition range_start :: "string \<Rightarrow> string \<Rightarrow> u64 \<Rightarrow> u64" where
  "range_start r dash fsize =
     (if r \<noteq> dash then strtoull r
      else let suffix = strtoull (tl dash)
           in if suffix \<ge> fsize then 0 else fsize - suffix)"

definition range_end :: "string \<Rightarrow> u64 \<Rightarrow> u64" where
  "range_end dash fsize = (if tl dash \<noteq> [] then strtoull (tl dash) else fsize - 1)"

definition parse_range :: "string option \<Rightarrow> u64 \<Rightarrow> (u64 \<times> u64 \<times> bool) option" where
  "parse_range range_hdr fsize =
     (let start0 = 0; end0 = (if fsize > 0 then fsize - 1 else 0) in
      case range_hdr of
        None \<Rightarrow> Some (start0, end0, False)
      | Some h \<Rightarrow>
          if take 6 h = ''bytes='' then
            (let r = drop 6 h in
             case strchr r CHR ''-'' of
               None \<Rightarrow> Some (start0, end0, False)
             | Some dash \<Rightarrow>
                 let start = range_start r dash fsize;
                     end' = range_end dash fsize
                 in if start > end' \<or> start \<ge> fsize then None
                    else Some (start, end', True))
          else Some (start0, end0, False))"

text \<open>\<open>return MHD_NO\<close> after the events \<open>es\<close>: nothing is queued.\<close>

definition refuse :: "event list \<Rightarrow> outcome" where
  "refuse es = \<lparr>ret = MHD_NO, queued = None, events = es\<rparr>"

definition content_range :: "u64 \<Rightarrow> u64 \<Rightarrow> u64 \<Rightarrow> string" where
  "content_range start end' fsize =
     ''bytes '' @ PRIu64 start @ ''-'' @ PRIu64 end' @ ''/'' @ PRIu64 fsize"

definition handle_request :: "sys \<Rightarrow> request \<Rightarrow> outcome" where
  "handle_request sy req =
     (if http_method req \<noteq> ''GET'' then refuse []
      else if contains_dotdot (url req) then refuse []
      else
        let path = MOVIE_DIR @ url req in
        case stat_file sy path of
          None \<Rightarrow> refuse [Ev_stat path]
        | Some (is_reg, fsize) \<Rightarrow>
            if \<not> is_reg then refuse [Ev_stat path]
            else
              (case fopen_file sy path of
                 None \<Rightarrow> refuse [Ev_stat path, Ev_fopen path False]
               | Some f \<Rightarrow>
                   let bitrate = query_bitrate (arg_bitrate req);
                       fps = query_fps (arg_fps req)
                   in
                   (case parse_range (hdr_range req) fsize of
                      None \<Rightarrow> refuse [Ev_stat path, Ev_fopen path True, Ev_fclose]
                    | Some (start, end', is_partial) \<Rightarrow>
                        let clen = end' - start + 1;
                            stt = \<lparr>file_ptr = Some f, offset_base = start, file_size = fsize,
                                   total_sent = 0, since_last = 0, last_print = clock sy,
                                   estimated_bitrate = bitrate, target_fps = fps\<rparr>;
                            es = [Ev_stat path, Ev_fopen path True, Ev_new_state]
                        in
                        if \<not> create_ok sy then refuse (es @ [Ev_fclose, Ev_delete_state])
                        else
                          let hs = [(''Content-Type'', mime_type (url req)),
                                    (''Accept-Ranges'', ''bytes''),
                                    (''Access-Control-Allow-Origin'', ''*'')]
                                   @ (if is_partial
                                      then [(''Content-Range'', content_range start end' fsize)]
                                      else []);
                              st = (if is_partial then MHD_HTTP_PARTIAL_CONTENT else MHD_HTTP_OK);
                              resp = \<lparr>status = st, content_length = clen, headers = hs,
                                      reader_state = stt\<rparr>
                          in
                          (case queue_ret sy of
                             MHD_YES \<Rightarrow> \<lparr>ret = MHD_YES, queued = Some resp, events = es\<rparr>
                           | MHD_NO \<Rightarrow> refuse (es @ file_free stt)))))"

section \<open>Example surroundings\<close>

text \<open>
  A media directory that holds the single regular file \<open>clip.mp4\<close>, of size \<open>S\<close> and
  with the bytes \<open>f\<close>; the transport creates and queues every response.
\<close>

definition clip_path :: string where
  "clip_path = ''/home/lucca/Movies/clip.mp4''"

definition clip_sys :: "u64 \<Rightarrow> byte list \<Rightarrow> sys" where
  "clip_sys S f =
     \<lparr>stat_file = (\<lambda>p. if p = clip_path then Some (True, S) else None),
      fopen_file = (\<lambda>p. if p = clip_path then Some f else None),
      create_ok = True, queue_ret = MHD_YES, clock = 0\<rparr>"

text \<open>A GET request without query arguments.\<close>

definition GET :: "string \<Rightarrow> string option \<Rightarrow> request" where
  "GET u range_hdr =
     \<lparr>url = u, http_method = ''GET'', arg_bitrate = None, arg_fps = None, hdr_range = range_hdr\<rparr>"

text \<open>The state the handler builds for \<open>Range: bytes=0-0\<close> on a file of four bytes.\<close>

definition four_bytes :: "byte list" where
  "four_bytes = [10, 20, 30, 40]"

definition first_byte_state :: FileState where
  "first_byte_state =
     \<lparr>file_ptr = Some four_bytes, offset_base = 0, file_size = 4, total_sent = 0,
      since_last = 0, last_print = 0, estimated_bitrate = 8000000, target_fps = 60\<rparr>"

text \<open>A double that is neither an infinity nor a NaN.\<close>

fun is_finite :: "dbl \<Rightarrow> bool" where
  "is_finite (Fin q) = True"
| "is_finite x = False"
section \<open>Facts about the library functions and the handler\<close>

lemma has_iff_sublist: "has u ext \<longleftrightarrow> sublist ext u"
proof (induction u)
  case Nil
  show ?case by (simp add: has_def)
next
  case (Cons c cs)
  have p: "take (length ext) (c # cs) = ext \<longleftrightarrow> prefix ext (c # cs)"
    by (metis append_eq_conv_conj prefix_def)
  from Cons show ?case
    unfolding has_def by (simp only: strstr.simps sublist_Cons_right p split: if_splits) auto
qed

lemma strchr_first:
  "c \<notin> set a \<Longrightarrow> strchr (a @ c # rest) c = Some (c # rest)"
  by (induction a) auto

lemma strchr_None: "strchr s c = None \<longleftrightarrow> c \<notin> set s"
  by (induction s) auto

lemma digit_not_space: "isdigit_c c \<Longrightarrow> \<not> isspace_c c \<and> c \<noteq> CHR ''-'' \<and> c \<noteq> CHR ''+''"
  by (auto simp: isdigit_c_def isspace_c_def)

lemma takeWhile_digits:
  "\<forall>c \<in> set ds. isdigit_c c \<Longrightarrow> rest = [] \<or> \<not> isdigit_c (hd rest) \<Longrightarrow>
   takeWhile isdigit_c (ds @ rest) = ds"
  by (cases rest) (auto simp: takeWhile_append)

lemma strto_parts_digits:
  assumes "\<forall>c \<in> set ds. isdigit_c c" "ds \<noteq> []" "rest = [] \<or> \<not> isdigit_c (hd rest)"
  shows "strto_parts (ds @ rest) = (False, dec_value ds)"
proof -
  obtain d ds' where ds: "ds = d # ds'" using assms(2) by (cases ds) auto
  have d: "isdigit_c d" using assms(1) ds by simp
  have "dropWhile isspace_c (ds @ rest) = ds @ rest"
    using d digit_not_space ds by simp
  moreover have "takeWhile isdigit_c (ds @ rest) = ds"
    using takeWhile_digits assms by blast
  ultimately show ?thesis
    using d digit_not_space [OF d] ds by (simp add: strto_parts_def)
qed

lemma strtoull_digits:
  assumes "\<forall>c \<in> set ds. isdigit_c c" "ds \<noteq> []" "rest = [] \<or> \<not> isdigit_c (hd rest)"
  shows "strtoull (ds @ rest) = strtoull ds"
  using strto_parts_digits [OF assms] strto_parts_digits [OF assms(1,2), of "[]"]
  by (simp add: strtoull_def)

lemma strtoull_digits_value:
  assumes "\<forall>c \<in> set ds. isdigit_c c" "ds \<noteq> []" "rest = [] \<or> \<not> isdigit_c (hd rest)"
    "dec_value ds < 2 ^ 64"
  shows "strtoull (ds @ rest) = word_of_nat (dec_value ds)"
  using strto_parts_digits [OF assms(1-3)] assms(4)
  by (simp add: strtoull_def)



lemma digits_no_dash: "\<forall>c \<in> set a. isdigit_c c \<Longrightarrow> CHR ''-'' \<notin> set a"
  by (auto simp: isdigit_c_def)

lemma strchr_dash:
  assumes "\<forall>c \<in> set a. isdigit_c c" "CHR ''-'' \<notin> set j1"
  shows "strchr (a @ j1 @ CHR ''-'' # t) CHR ''-'' = Some (CHR ''-'' # t)"
proof -
  have "CHR ''-'' \<notin> set (a @ j1)" using digits_no_dash assms by simp
  from strchr_first [OF this, of t] show ?thesis by simp
qed

lemma range_end_junk:
  assumes db: "\<forall>c \<in> set b. isdigit_c c" and b: "b \<noteq> []"
    and j2: "j2 = [] \<or> \<not> isdigit_c (hd j2)"
  shows "range_end (CHR ''-'' # b @ j2) S = strtoull b"
  using b strtoull_digits [OF db b j2] by (simp add: range_end_def)

lemma range_start_junk:
  assumes da: "\<forall>c \<in> set a. isdigit_c c" and a: "a \<noteq> []"
    and j1: "j1 = [] \<or> \<not> isdigit_c (hd j1)"
  shows "range_start (a @ j1 @ CHR ''-'' # t) (CHR ''-'' # t) S = strtoull a"
proof -
  have r1: "j1 @ CHR ''-'' # t = [] \<or> \<not> isdigit_c (hd (j1 @ CHR ''-'' # t))"
    using j1 by (cases j1) (auto simp: isdigit_c_def)
  have "a @ j1 @ CHR ''-'' # t \<noteq> CHR ''-'' # t" using a by auto
  then show ?thesis
    using strtoull_digits [OF da a r1] by (simp add: range_start_def)
qed

lemma range_start_suffix_junk:
  assumes db: "\<forall>c \<in> set b. isdigit_c c" and b: "b \<noteq> []"
    and j2: "j2 = [] \<or> \<not> isdigit_c (hd j2)"
  shows "range_start (CHR ''-'' # b @ j2) (CHR ''-'' # b @ j2) S
       = range_start (CHR ''-'' # b) (CHR ''-'' # b) S"
  using strtoull_digits [OF db b j2] by (simp add: range_start_def)

lemma parse_range_junk:
  assumes da: "\<forall>c \<in> set a. isdigit_c c" and db: "\<forall>c \<in> set b. isdigit_c c"
    and b: "b \<noteq> []" and j1: "CHR ''-'' \<notin> set j1" "j1 = [] \<or> \<not> isdigit_c (hd j1)"
    and a: "a = [] \<longrightarrow> j1 = []" and j2: "j2 = [] \<or> \<not> isdigit_c (hd j2)"
  shows "parse_range (Some (''bytes='' @ a @ j1 @ ''-'' @ b @ j2)) S
       = parse_range (Some (''bytes='' @ a @ ''-'' @ b)) S"
proof (cases "a = []")
  case True
  then have "j1 = []" using a by simp
  with True show ?thesis
    using range_start_suffix_junk [OF db b j2, of S] range_end_junk [OF db b j2, of S]
      range_end_junk [OF db b, of "[]" S]
    by (simp add: parse_range_def Let_def)
next
  case False
  have n: "[] = [] \<or> \<not> isdigit_c (hd [])" by simp
  show ?thesis
    using strchr_dash [OF da j1(1), of "b @ j2"] strchr_dash [OF da, of "[]" b]
      range_start_junk [OF da False j1(2), of "b @ j2" S]
      range_start_junk [OF da False n, of b S]
      range_end_junk [OF db b j2, of S] range_end_junk [OF db b, of "[]" S]
    by (simp add: parse_range_def Let_def)
qed

lemma word_of_nat_less_iff:
  "x < 2 ^ 64 \<Longrightarrow> y < 2 ^ 64 \<Longrightarrow> (word_of_nat x :: u64) < word_of_nat y \<longleftrightarrow> x < y"
  by (simp add: word_less_nat_alt unat_of_nat)

lemma word_of_nat_le_iff:
  "x < 2 ^ 64 \<Longrightarrow> (S :: u64) \<le> word_of_nat x \<longleftrightarrow> unat S \<le> x"
  by (simp add: word_le_nat_alt unat_of_nat)

lemma strtoull_value:
  assumes "\<forall>c \<in> set ds. isdigit_c c" "ds \<noteq> []" "dec_value ds < 2 ^ 64"
  shows "strtoull ds = word_of_nat (dec_value ds)"
  using strtoull_digits_value [OF assms(1,2) _ assms(3), of "[]"] by simp

lemma parse_range_digits:
  assumes da: "\<forall>c \<in> set a. isdigit_c c" and db: "\<forall>c \<in> set b. isdigit_c c"
    and a: "a \<noteq> []" and b: "b \<noteq> []"
    and va: "dec_value a < 2 ^ 64" and vb: "dec_value b < 2 ^ 64"
  shows "parse_range (Some (''bytes='' @ a @ ''-'' @ b)) S =
           (if dec_value b < dec_value a \<or> unat S \<le> dec_value a then None
            else Some (word_of_nat (dec_value a), word_of_nat (dec_value b), True))"
proof -
  have n: "[] = [] \<or> \<not> isdigit_c (hd [])" by simp
  show ?thesis
    using strchr_dash [OF da, of "[]" b]
      range_start_junk [OF da a n, of b S] range_end_junk [OF db b, of "[]" S]
      word_of_nat_less_iff [OF vb va] word_of_nat_le_iff [OF va, of S]
    by (simp add: parse_range_def Let_def strtoull_value [OF da a va] strtoull_value [OF db b vb])
qed

lemma handle_request_range_cong:
  assumes "\<And>S. parse_range h1 S = parse_range h2 S"
  shows "handle_request sy (req\<lparr>hdr_range := h1\<rparr>) = handle_request sy (req\<lparr>hdr_range := h2\<rparr>)"
  by (simp add: handle_request_def Let_def assms cong: option.case_cong prod.case_cong if_cong)

lemma handle_request_open:
  assumes "http_method req = ''GET''" "\<not> contains_dotdot (url req)"
    "stat_file sy (MOVIE_DIR @ url req) = Some (True, S)"
    "fopen_file sy (MOVIE_DIR @ url req) = Some f"
    "parse_range (hdr_range req) S = Some (start, end', p)"
  shows "handle_request sy req =
    (if \<not> create_ok sy
     then refuse [Ev_stat (MOVIE_DIR @ url req), Ev_fopen (MOVIE_DIR @ url req) True, Ev_new_state,
                  Ev_fclose, Ev_delete_state]
     else case queue_ret sy of
       MHD_YES \<Rightarrow>
         \<lparr>ret = MHD_YES,
          queued = Some \<lparr>status = (if p then MHD_HTTP_PARTIAL_CONTENT else MHD_HTTP_OK),
            content_length = end' - start + 1,
            headers = [(''Content-Type'', mime_type (url req)), (''Accept-Ranges'', ''bytes''),
                       (''Access-Control-Allow-Origin'', ''*'')]
                      @ (if p then [(''Content-Range'', content_range start end' S)] else []),
            reader_state = \<lparr>file_ptr = Some f, offset_base = start, file_size = S,
              total_sent = 0, since_last = 0, last_print = clock sy,
              estimated_bitrate = query_bitrate (arg_bitrate req),
              target_fps = query_fps (arg_fps req)\<rparr>\<rparr>,
          events = [Ev_stat (MOVIE_DIR @ url req), Ev_fopen (MOVIE_DIR @ url req) True, Ev_new_state]\<rparr>
     | MHD_NO \<Rightarrow>
         refuse [Ev_stat (MOVIE_DIR @ url req), Ev_fopen (MOVIE_DIR @ url req) True, Ev_new_state,
                  Ev_fclose, Ev_delete_state])"
  using assms by (simp add: handle_request_def Let_def file_free_def split: MHD_Result.split)

lemma handle_request_bad_range:
  assumes "http_method req = ''GET''" "\<not> contains_dotdot (url req)"
    "stat_file sy (MOVIE_DIR @ url req) = Some (True, S)"
    "fopen_file sy (MOVIE_DIR @ url req) = Some f"
    "parse_range (hdr_range req) S = None"
  shows "handle_request sy req =
     refuse [Ev_stat (MOVIE_DIR @ url req), Ev_fopen (MOVIE_DIR @ url req) True, Ev_fclose]"
  using assms by (simp add: handle_request_def Let_def)

lemma handle_request_not_opened:
  assumes "http_method req \<noteq> ''GET'' \<or> contains_dotdot (url req) \<or>
    stat_file sy (MOVIE_DIR @ url req) = None \<or>
    (\<exists>S. stat_file sy (MOVIE_DIR @ url req) = Some (False, S)) \<or>
    fopen_file sy (MOVIE_DIR @ url req) = None"
  shows "ret (handle_request sy req) = MHD_NO \<and> queued (handle_request sy req) = None \<and>
    open_handles (events (handle_request sy req)) = 0 \<and>
    live_states (events (handle_request sy req)) = 0"
  using assms
  by (auto simp: handle_request_def Let_def refuse_def split: option.split prod.split)


lemma served_response:
  assumes q: "queued (handle_request sy req) = Some resp"
  obtains S f start end' p where
    "stat_file sy (MOVIE_DIR @ url req) = Some (True, S)"
    "fopen_file sy (MOVIE_DIR @ url req) = Some f"
    "parse_range (hdr_range req) S = Some (start, end', p)"
    "status resp = (if p then MHD_HTTP_PARTIAL_CONTENT else MHD_HTTP_OK)"
    "content_length resp = end' - start + 1"
    "headers resp = [(''Content-Type'', mime_type (url req)), (''Accept-Ranges'', ''bytes''),
                       (''Access-Control-Allow-Origin'', ''*'')]
                      @ (if p then [(''Content-Range'', content_range start end' S)] else [])"
    "reader_state resp = \<lparr>file_ptr = Some f, offset_base = start, file_size = S,
              total_sent = 0, since_last = 0, last_print = clock sy,
              estimated_bitrate = query_bitrate (arg_bitrate req),
              target_fps = query_fps (arg_fps req)\<rparr>"
proof -
  let ?p = "MOVIE_DIR @ url req"
  have n: "\<not> (http_method req \<noteq> ''GET'' \<or> contains_dotdot (url req) \<or>
    stat_file sy ?p = None \<or> (\<exists>S. stat_file sy ?p = Some (False, S)) \<or>
    fopen_file sy ?p = None)"
  proof
    assume "http_method req \<noteq> ''GET'' \<or> contains_dotdot (url req) \<or>
      stat_file sy ?p = None \<or> (\<exists>S. stat_file sy ?p = Some (False, S)) \<or>
      fopen_file sy ?p = None"
    from handle_request_not_opened [OF this] q show False by simp
  qed
  then have m: "http_method req = ''GET''" and d: "\<not> contains_dotdot (url req)"
    and st0: "stat_file sy ?p \<noteq> None" and nf: "\<And>S. stat_file sy ?p \<noteq> Some (False, S)"
    and fo0: "fopen_file sy ?p \<noteq> None"
    by auto
  from st0 obtain r S where "stat_file sy ?p = Some (r, S)" by auto
  with nf [of S] have st: "stat_file sy ?p = Some (True, S)" by (cases r) auto
  from fo0 obtain f where fo: "fopen_file sy ?p = Some f" by auto
  have "parse_range (hdr_range req) S \<noteq> None"
  proof
    assume "parse_range (hdr_range req) S = None"
    from handle_request_bad_range [OF m d st fo this] q show False by (simp add: refuse_def)
  qed
  then obtain start end' p where pr: "parse_range (hdr_range req) S = Some (start, end', p)"
    by (cases "parse_range (hdr_range req) S") auto
  note o = handle_request_open [OF m d st fo pr]
  have c: "create_ok sy" "queue_ret sy = MHD_YES"
    using q o by (auto simp: refuse_def split: if_splits MHD_Result.splits)
  have "resp = \<lparr>status = (if p then MHD_HTTP_PARTIAL_CONTENT else MHD_HTTP_OK),
            content_length = end' - start + 1,
            headers = [(''Content-Type'', mime_type (url req)), (''Accept-Ranges'', ''bytes''),
                       (''Access-Control-Allow-Origin'', ''*'')]
                      @ (if p then [(''Content-Range'', content_range start end' S)] else []),
            reader_state = \<lparr>file_ptr = Some f, offset_base = start, file_size = S,
              total_sent = 0, since_last = 0, last_print = clock sy,
              estimated_bitrate = query_bitrate (arg_bitrate req),
              target_fps = query_fps (arg_fps req)\<rparr>\<rparr>"
    using q o c by simp
  then show thesis using that [OF st fo pr] by simp
qed

lemma parse_range_dash_partial:
  assumes "take 6 h = ''bytes=''" "CHR ''-'' \<in> set (drop 6 h)"
    "parse_range (Some h) S = Some (start, end', p)"
  shows "p"
proof -
  obtain dash where "strchr (drop 6 h) CHR ''-'' = Some dash"
    using assms(2) strchr_None [of "drop 6 h" "CHR ''-''"] by (cases "strchr (drop 6 h) CHR ''-''") auto
  then show ?thesis using assms(1,3)
    by (auto simp: parse_range_def Let_def split: if_splits)
qed

lemma parse_range_other_unit:
  assumes "take 6 h \<noteq> ''bytes=''"
  shows "parse_range (Some h) S = parse_range None S"
  using assms by (simp add: parse_range_def)
section \<open>Evaluating the model on concrete requests\<close>

lemmas c_library_defs =
  strtoull_def strto_parts_def isspace_c_def isdigit_c_def dec_value_def digit_val_def
  atoi_def strtol_def PRIu64_def dec_digits.simps

lemmas handler_defs =
  handle_request_def clip_sys_def clip_path_def GET_def contains_dotdot_def MOVIE_DIR_def
  parse_range_def range_start_def range_end_def query_bitrate_def query_fps_def refuse_def
  Let_def MHD_HTTP_OK_def MHD_HTTP_PARTIAL_CONTENT_def mime_type_def has_def
  content_range_def file_free_def

section \<open>The claims\<close>

subsection \<open>C1: suffix ranges\<close>

text \<open>
  C1 says that \<open>Range: bytes=-500\<close> on a file of 1,000,000 bytes is served as the last
  500 bytes (206, \<open>bytes 999500-999999/1000000\<close>). The handler computes the start
  999500 as its comment on the suffix syntax announces, but then reads the end from the
  same digits, 500, instead of \<open>S - 1\<close>; the start is beyond the end, the file is closed
  and the request is refused.
\<close>

theorem suffix_range_500_refused:
  "range_start ''-500'' ''-500'' 1000000 = 999500 \<and> range_end ''-500'' 1000000 = 500 \<and>
   handle_request (clip_sys 1000000 (replicate 1000000 0)) (GET ''/clip.mp4'' (Some ''bytes=-500''))
     = \<lparr>ret = MHD_NO, queued = None,
        events = [Ev_stat clip_path, Ev_fopen clip_path True, Ev_fclose]\<rparr>"
  by (simp add: handler_defs c_library_defs)

subsection \<open>C2: the empty file\<close>

text \<open>
  C2 says that a GET without a Range header on an empty regular file is answered with
  status 200 and Content-Length 0. The handler guards \<open>file_size - 1\<close> against the
  empty file by taking 0 for \<open>end\<close>, and then computes \<open>end - start + 1 = 1\<close>: the
  response announces one byte.
\<close>

theorem empty_file_content_length_1:
  "handle_request (clip_sys 0 []) (GET ''/clip.mp4'' None)
     = \<lparr>ret = MHD_YES,
        queued = Some \<lparr>status = 200, content_length = 1,
           headers = [(''Content-Type'', ''video/mp4''), (''Accept-Ranges'', ''bytes''),
                      (''Access-Control-Allow-Origin'', ''*'')],
           reader_state = \<lparr>file_ptr = Some [], offset_base = 0, file_size = 0, total_sent = 0,
              since_last = 0, last_print = 0, estimated_bitrate = 8000000, target_fps = 60\<rparr>\<rparr>,
        events = [Ev_stat clip_path, Ev_fopen clip_path True, Ev_new_state]\<rparr>"
  by (simp add: handler_defs c_library_defs)

subsection \<open>C3: several ranges in one header\<close>

text \<open>
  C3 says that a header with several comma-separated ranges is treated as absent (200,
  the whole file). The handler has no notion of a comma: \<open>bytes=0-5,10-15\<close> on a file of
  1,000,000 bytes is answered with 206, six bytes and \<open>Content-Range: bytes
  0-5/1000000\<close>.
\<close>

theorem multi_range_counterexample:
  "handle_request (clip_sys 1000000 []) (GET ''/clip.mp4'' (Some ''bytes=0-5,10-15''))
     = \<lparr>ret = MHD_YES,
        queued = Some \<lparr>status = 206, content_length = 6,
           headers = [(''Content-Type'', ''video/mp4''), (''Accept-Ranges'', ''bytes''),
                      (''Access-Control-Allow-Origin'', ''*''),
                      (''Content-Range'', ''bytes 0-5/1000000'')],
           reader_state = \<lparr>file_ptr = Some [], offset_base = 0, file_size = 1000000,
              total_sent = 0, since_last = 0, last_print = 0, estimated_bitrate = 8000000,
              target_fps = 60\<rparr>\<rparr>,
        events = [Ev_stat clip_path, Ev_fopen clip_path True, Ev_new_state]\<rparr>
   \<and> handle_request (clip_sys 1000000 []) (GET ''/clip.mp4'' (Some ''bytes=0-5,10-15''))
     \<noteq> handle_request (clip_sys 1000000 []) (GET ''/clip.mp4'' None)"
  by (simp add: handler_defs c_library_defs)

text \<open>
  C3 as amended: in a header \<open>bytes=a-b,rest\<close>, with \<open>a\<close> a possibly empty and \<open>b\<close> a
  non-empty run of decimal digits, everything from the comma on is ignored; the request
  is handled exactly as \<open>bytes=a-b\<close> is, and a response to it never has status 200.
\<close>

theorem multi_range_first_only:
  assumes "\<forall>c \<in> set a. isdigit_c c" and "\<forall>c \<in> set b. isdigit_c c" and "b \<noteq> []"
  shows "handle_request sy (req\<lparr>hdr_range := Some (''bytes='' @ a @ ''-'' @ b @ '','' @ rest)\<rparr>)
           = handle_request sy (req\<lparr>hdr_range := Some (''bytes='' @ a @ ''-'' @ b)\<rparr>)
         \<and> map_option status
             (queued (handle_request sy
                (req\<lparr>hdr_range := Some (''bytes='' @ a @ ''-'' @ b @ '','' @ rest)\<rparr>)))
           \<noteq> Some MHD_HTTP_OK"
proof -
  let ?h = "''bytes='' @ a @ ''-'' @ b @ '','' @ rest"
  have j: "'','' @ rest = [] \<or> \<not> isdigit_c (hd ('','' @ rest))"
    by (simp add: isdigit_c_def)
  have "\<And>S. parse_range (Some (''bytes='' @ a @ [] @ ''-'' @ b @ '','' @ rest)) S
             = parse_range (Some (''bytes='' @ a @ ''-'' @ b)) S"
    by (rule parse_range_junk [OF assms(1,2,3) _ _ _ j]) simp_all
  then have eq: "\<And>S. parse_range (Some ?h) S = parse_range (Some (''bytes='' @ a @ ''-'' @ b)) S"
    by simp
  have 1: "handle_request sy (req\<lparr>hdr_range := Some ?h\<rparr>)
           = handle_request sy (req\<lparr>hdr_range := Some (''bytes='' @ a @ ''-'' @ b)\<rparr>)"
    by (rule handle_request_range_cong) (rule eq)
  have 2: "map_option status (queued (handle_request sy (req\<lparr>hdr_range := Some ?h\<rparr>)))
           \<noteq> Some MHD_HTTP_OK"
  proof
    assume "map_option status (queued (handle_request sy (req\<lparr>hdr_range := Some ?h\<rparr>)))
           = Some MHD_HTTP_OK"
    then obtain resp where q: "queued (handle_request sy (req\<lparr>hdr_range := Some ?h\<rparr>)) = Some resp"
      and st: "status resp = MHD_HTTP_OK" by auto
    from q obtain S start end' p where
      pr: "parse_range (hdr_range (req\<lparr>hdr_range := Some ?h\<rparr>)) S = Some (start, end', p)"
      and sp: "status resp = (if p then MHD_HTTP_PARTIAL_CONTENT else MHD_HTTP_OK)"
      by (rule served_response)
    from pr have pr': "parse_range (Some ?h) S = Some (start, end', p)" by simp
    have "p" by (rule parse_range_dash_partial [OF _ _ pr']) simp_all
    with sp st show False by (simp add: MHD_HTTP_OK_def MHD_HTTP_PARTIAL_CONTENT_def)
  qed
  from 1 2 show ?thesis by (rule conjI)
qed

theorem multi_range_first_only_witness:
  "handle_request (clip_sys 1000000 []) (GET ''/clip.mp4'' (Some ''bytes=0-5,10-15''))
     = handle_request (clip_sys 1000000 []) (GET ''/clip.mp4'' (Some ''bytes=0-5''))
   \<and> map_option status
        (queued (handle_request (clip_sys 1000000 []) (GET ''/clip.mp4'' (Some ''bytes=0-5,10-15''))))
      \<noteq> Some MHD_HTTP_OK"
proof -
  have a: "\<forall>c \<in> set ''0''. isdigit_c c" and b: "\<forall>c \<in> set ''5''. isdigit_c c"
    and n: "''5'' \<noteq> []"
    by (simp_all add: isdigit_c_def)
  show ?thesis
    using multi_range_first_only [OF a b n, where sy = "clip_sys 1000000 []"
        and req = "GET ''/clip.mp4'' None" and rest = "''10-15''"]
    by (simp add: GET_def)
qed

subsection \<open>C4: the MIME type\<close>

text \<open>
  C4 says that the Content-Type is chosen by a suffix match, so that \<open>/archive.ts.bak\<close>
  does not get the type of \<open>.ts\<close>. The handler searches with \<open>strstr\<close>: the extension
  may stand anywhere in the URL, and \<open>/archive.ts.bak\<close> is served as \<open>video/mp2t\<close>.
\<close>

theorem mime_substring_counterexample:
  "mime_type ''/archive.ts.bak'' = ''video/mp2t'' \<and> \<not> suffix ''.ts'' ''/archive.ts.bak''"
  by (simp add: mime_type_def has_def suffix_def append_eq_Cons_conv Cons_eq_append_conv)

text \<open>
  C4 as amended: the Content-Type is chosen by a case-sensitive substring match on the
  URL, the first match winning in the order .mp4, .m3u8, .ts, .html, .js, .css,
  .jpg or .jpeg, .png, .gif, .vtt, .srt, with application/octet-stream otherwise.
\<close>

theorem mime_type_by_substring:
  "mime_type u =
     (if sublist ''.mp4'' u then ''video/mp4''
      else if sublist ''.m3u8'' u then ''application/x-mpegURL''
      else if sublist ''.ts'' u then ''video/mp2t''
      else if sublist ''.html'' u then ''text/html; charset=utf-8''
      else if sublist ''.js'' u then ''application/javascript''
      else if sublist ''.css'' u then ''text/css''
      else if sublist ''.jpg'' u \<or> sublist ''.jpeg'' u then ''image/jpeg''
      else if sublist ''.png'' u then ''image/png''
      else if sublist ''.gif'' u then ''image/gif''
      else if sublist ''.vtt'' u then ''text/vtt; charset=utf-8''
      else if sublist ''.srt'' u then ''application/x-subrip''
      else ''application/octet-stream'')"
  by (simp only: mime_type_def has_iff_sublist)

subsection \<open>C5: the query arguments and the frame estimate\<close>

text \<open>
  C5 says that a malformed \<open>bitrate\<close> or \<open>fps\<close> falls back to 8,000,000 and 60, and
  that a zero \<open>fps\<close> causes no division by zero. The defaults are used only when the
  argument is absent: \<open>bitrate=abc&fps=abc\<close> gives the state the values 0 and 0, and
  the quotient \<open>bitrate / fps\<close> of the meter is then computed with the divisor 0.0
  (an infinity for the default bit rate).
\<close>

theorem query_defaults_counterexample:
  "queued (handle_request (clip_sys 1000000 [])
      ((GET ''/clip.mp4'' None)\<lparr>arg_bitrate := Some ''abc'', arg_fps := Some ''abc''\<rparr>))
     = Some \<lparr>status = 200, content_length = 1000000,
           headers = [(''Content-Type'', ''video/mp4''), (''Accept-Ranges'', ''bytes''),
                      (''Access-Control-Allow-Origin'', ''*'')],
           reader_state = \<lparr>file_ptr = Some [], offset_base = 0, file_size = 1000000,
              total_sent = 0, since_last = 0, last_print = 0, estimated_bitrate = 0,
              target_fps = 0\<rparr>\<rparr>
   \<and> ddiv (u64_to_dbl 8000000) (u32_to_dbl 0) = PInf
   \<and> bytes_per_frame 8000000 0 = PInf"
  by (simp add: handler_defs c_library_defs bytes_per_frame_def u64_to_dbl_def u32_to_dbl_def)

text \<open>
  C5 as amended: the state of a served request holds 8,000,000 and 60 where the
  argument is absent, and otherwise the value that \<open>strtoull\<close> or \<open>atoi\<close> reads; that
  value is 0 for an empty argument and for one that starts with a character that is
  neither a digit, white space nor a sign. With \<open>fps = 0\<close> the frame estimate printed
  after an interval of at least 0.45 s is 0.0, and for every \<open>fps\<close> and bit rate it is a
  finite number.
\<close>

theorem query_args_and_estimate:
  assumes "queued (handle_request sy req) = Some resp"
    and "\<not> isdigit_c c" and "\<not> isspace_c c" and "c \<noteq> CHR ''-''" and "c \<noteq> CHR ''+''"
    and "45 / 100 \<le> e"
  shows "estimated_bitrate (reader_state resp)
           = (case arg_bitrate req of None \<Rightarrow> 8000000 | Some v \<Rightarrow> strtoull v)
       \<and> target_fps (reader_state resp)
           = (case arg_fps req of None \<Rightarrow> 60 | Some v \<Rightarrow> atoi v)
       \<and> strtoull (c # v) = 0 \<and> atoi (c # v) = 0 \<and> strtoull [] = 0 \<and> atoi [] = 0
       \<and> estimate_fps b (Fin e) bitrate 0 = Fin 0
       \<and> is_finite (estimate_fps b (Fin e) bitrate fps)"
proof -
  from assms(1) have s: "reader_state resp = \<lparr>file_ptr = file_ptr (reader_state resp),
      offset_base = offset_base (reader_state resp), file_size = file_size (reader_state resp),
      total_sent = 0, since_last = 0, last_print = clock sy,
      estimated_bitrate = query_bitrate (arg_bitrate req),
      target_fps = query_fps (arg_fps req)\<rparr>"
    by (rule served_response) simp
  have 1: "estimated_bitrate (reader_state resp)
           = (case arg_bitrate req of None \<Rightarrow> 8000000 | Some v \<Rightarrow> strtoull v)"
    by (subst s) (simp add: query_bitrate_def split: option.split)
  have 2: "target_fps (reader_state resp)
           = (case arg_fps req of None \<Rightarrow> 60 | Some v \<Rightarrow> atoi v)"
    by (subst s) (simp add: query_fps_def split: option.split)
  have p: "strto_parts (c # v) = (False, 0)" "strto_parts [] = (False, 0)"
    using assms(2-5) by (simp_all add: strto_parts_def dec_value_def)
  have 3: "strtoull (c # v) = 0 \<and> atoi (c # v) = 0 \<and> strtoull [] = 0 \<and> atoi [] = 0"
    by (simp add: strtoull_def atoi_def strtol_def p)
  have e: "e \<noteq> 0" using assms(6) by auto
  have 4: "estimate_fps b (Fin e) bitrate 0 = Fin 0"
    using e by (simp add: estimate_fps_def bytes_per_frame_def u64_to_dbl_def u32_to_dbl_def)
  have 5: "is_finite (estimate_fps b (Fin e) bitrate fps)"
    using e by (simp add: estimate_fps_def bytes_per_frame_def u64_to_dbl_def u32_to_dbl_def Let_def)
  from 1 2 3 4 5 show ?thesis by simp
qed

theorem query_args_and_estimate_witness:
  "estimated_bitrate (reader_state
      \<lparr>status = 200, content_length = 1000000,
           headers = [(''Content-Type'', ''video/mp4''), (''Accept-Ranges'', ''bytes''),
                      (''Access-Control-Allow-Origin'', ''*'')],
           reader_state = \<lparr>file_ptr = Some [], offset_base = 0, file_size = 1000000,
              total_sent = 0, since_last = 0, last_print = 0, estimated_bitrate = 0,
              target_fps = 0\<rparr>\<rparr>) = strtoull ''abc''
   \<and> strtoull ''abc'' = 0 \<and> atoi ''abc'' = 0
   \<and> estimate_fps 1000 (Fin (1 / 2)) 8000000 0 = Fin 0
   \<and> is_finite (estimate_fps 1000 (Fin (1 / 2)) 8000000 0)"
proof -
  have q: "queued (handle_request (clip_sys 1000000 [])
      ((GET ''/clip.mp4'' None)\<lparr>arg_bitrate := Some ''abc'', arg_fps := Some ''abc''\<rparr>))
     = Some \<lparr>status = 200, content_length = 1000000,
           headers = [(''Content-Type'', ''video/mp4''), (''Accept-Ranges'', ''bytes''),
                      (''Access-Control-Allow-Origin'', ''*'')],
           reader_state = \<lparr>file_ptr = Some [], offset_base = 0, file_size = 1000000,
              total_sent = 0, since_last = 0, last_print = 0, estimated_bitrate = 0,
              target_fps = 0\<rparr>\<rparr>"
    by (simp add: handler_defs c_library_defs)
  have c: "\<not> isdigit_c CHR ''a''" "\<not> isspace_c CHR ''a''" "CHR ''a'' \<noteq> CHR ''-''"
    "CHR ''a'' \<noteq> CHR ''+''"
    by (simp_all add: isdigit_c_def isspace_c_def)
  have e: "45 / 100 \<le> (1 / 2 :: rat)" by simp
  show ?thesis
    using query_args_and_estimate [OF q c e, where v = "''bc''" and b = 1000
        and bitrate = 8000000 and fps = 0]
    by (simp add: GET_def)
qed

subsection \<open>C6: reading beyond the window\<close>

text \<open>
  C6 says that the reader returns END for every \<open>pos\<close> at or beyond the window length.
  The state has no field for the length of the window: for \<open>Range: bytes=0-0\<close> on a
  file of four bytes the response has length 1, and a read at \<open>pos = 1\<close> returns the
  second and third byte of the file.
\<close>

theorem window_reader_counterexample:
  "queued (handle_request (clip_sys 4 four_bytes) (GET ''/clip.mp4'' (Some ''bytes=0-0'')))
     = Some \<lparr>status = 206, content_length = 1,
           headers = [(''Content-Type'', ''video/mp4''), (''Accept-Ranges'', ''bytes''),
                      (''Access-Control-Allow-Origin'', ''*''),
                      (''Content-Range'', ''bytes 0-0/4'')],
           reader_state = first_byte_state\<rparr>
   \<and> fst (file_reader first_byte_state 1 2 0) = Data [20, 30]"
  by (simp add: handler_defs c_library_defs first_byte_state_def four_bytes_def
      file_reader_def fseeko_def fread_def)

text \<open>
  C6 as amended: the reader returns END exactly when the absolute offset
  \<open>offset_base + pos\<close> is negative as an \<open>off_t\<close>, or lies at or beyond the end of the
  file, or no byte is asked for; otherwise it returns the at most \<open>max\<close> bytes of the
  file from that offset on, whatever the length of the window.
\<close>

theorem file_reader_end_of_stream:
  assumes "file_ptr s = Some contents"
  shows "fst (file_reader s pos n now) =
           (if sint (offset_base s + pos) < 0 \<or> length contents \<le> unat (offset_base s + pos)
               \<or> n = 0
            then END_OF_STREAM
            else Data (take n (drop (unat (offset_base s + pos)) contents)))"
  using assms
  by (simp add: file_reader_def fseeko_def fread_def Let_def)

theorem file_reader_end_of_stream_witness:
  "fst (file_reader first_byte_state 1 2 0) = Data [20, 30]
   \<and> fst (file_reader first_byte_state 4 2 0) = END_OF_STREAM"
proof -
  have f: "file_ptr first_byte_state = Some four_bytes"
    by (simp add: first_byte_state_def)
  show ?thesis
    using file_reader_end_of_stream [OF f, of 1 2 0] file_reader_end_of_stream [OF f, of 4 2 0]
    by (simp add: first_byte_state_def four_bytes_def)
qed

subsection \<open>C7: a range that is out of bounds\<close>

text \<open>
  C7: when the Range header has the unit \<open>bytes=\<close> and a dash, and the start and end
  the handler reads from it have \<open>start > end\<close> or \<open>start \<ge> S\<close> for the size \<open>S\<close> of the
  file, the request is refused: the handler returns \<open>MHD_NO\<close>, no response is queued
  (so no status and no body), every handle that was opened has been closed and no
  state is left allocated.
\<close>

theorem bad_range_refused:
  assumes "hdr_range req = Some h" and "take 6 h = ''bytes=''"
    and "strchr (drop 6 h) CHR ''-'' = Some dash"
    and "\<And>S. stat_file sy (MOVIE_DIR @ url req) = Some (True, S) \<Longrightarrow>
           range_end dash S < range_start (drop 6 h) dash S \<or> S \<le> range_start (drop 6 h) dash S"
  shows "ret (handle_request sy req) = MHD_NO \<and> queued (handle_request sy req) = None \<and>
    open_handles (events (handle_request sy req)) = 0 \<and>
    live_states (events (handle_request sy req)) = 0"
proof (cases "http_method req \<noteq> ''GET'' \<or> contains_dotdot (url req) \<or>
    stat_file sy (MOVIE_DIR @ url req) = None \<or>
    (\<exists>S. stat_file sy (MOVIE_DIR @ url req) = Some (False, S)) \<or>
    fopen_file sy (MOVIE_DIR @ url req) = None")
  case True
  then show ?thesis by (rule handle_request_not_opened)
next
  case False
  let ?p = "MOVIE_DIR @ url req"
  from False have m: "http_method req = ''GET''" and d: "\<not> contains_dotdot (url req)"
    and st0: "stat_file sy ?p \<noteq> None" and nf: "\<And>S. stat_file sy ?p \<noteq> Some (False, S)"
    and fo0: "fopen_file sy ?p \<noteq> None"
    by auto
  from st0 obtain r S where "stat_file sy ?p = Some (r, S)" by auto
  with nf [of S] have st: "stat_file sy ?p = Some (True, S)" by (cases r) auto
  from fo0 obtain f where fo: "fopen_file sy ?p = Some f" by auto
  have "parse_range (hdr_range req) S = None"
    using assms(1,2,3) assms(4) [OF st] by (simp add: parse_range_def Let_def)
  from handle_request_bad_range [OF m d st fo this]
  show ?thesis by (simp add: refuse_def)
qed

theorem bad_range_refused_witness:
  "ret (handle_request (clip_sys 1000000 []) (GET ''/clip.mp4'' (Some ''bytes=5-2''))) = MHD_NO
   \<and> queued (handle_request (clip_sys 1000000 []) (GET ''/clip.mp4'' (Some ''bytes=5-2''))) = None
   \<and> open_handles (events
        (handle_request (clip_sys 1000000 []) (GET ''/clip.mp4'' (Some ''bytes=5-2'')))) = 0
   \<and> live_states (events
        (handle_request (clip_sys 1000000 []) (GET ''/clip.mp4'' (Some ''bytes=5-2'')))) = 0
   \<and> events (handle_request (clip_sys 1000000 []) (GET ''/clip.mp4'' (Some ''bytes=5-2'')))
       = [Ev_stat clip_path, Ev_fopen clip_path True, Ev_fclose]"
proof -
  have h: "hdr_range (GET ''/clip.mp4'' (Some ''bytes=5-2'')) = Some ''bytes=5-2''"
    by (simp add: GET_def)
  have u: "take 6 ''bytes=5-2'' = ''bytes=''" by simp
  have c: "strchr (drop 6 ''bytes=5-2'') CHR ''-'' = Some ''-2''" by simp
  have r: "\<And>S. stat_file (clip_sys 1000000 []) (MOVIE_DIR @ url (GET ''/clip.mp4'' (Some ''bytes=5-2'')))
             = Some (True, S) \<Longrightarrow>
           range_end ''-2'' S < range_start (drop 6 ''bytes=5-2'') ''-2'' S
           \<or> S \<le> range_start (drop 6 ''bytes=5-2'') ''-2'' S"
    by (simp add: range_end_def range_start_def c_library_defs)
  show ?thesis
    using bad_range_refused [OF h u c r]
    by (simp add: handler_defs c_library_defs)
qed

subsection \<open>C8: the traversal guard\<close>

text \<open>
  C8: when the URL contains \<open>..\<close> the handler returns \<open>MHD_NO\<close> and has done nothing
  before: no \<open>stat\<close>, no \<open>fopen\<close>, no state and no response, so no byte of any file is
  read.
\<close>

theorem dotdot_refused:
  assumes "sublist ''..'' (url req)"
  shows "handle_request sy req = \<lparr>ret = MHD_NO, queued = None, events = []\<rparr>"
  using assms has_iff_sublist [of "url req" "''..''"]
  by (simp add: handle_request_def contains_dotdot_def has_def refuse_def)

theorem dotdot_refused_witness:
  "sublist ''..'' ''/../etc/passwd'' \<and>
   handle_request (clip_sys 1000000 []) (GET ''/../etc/passwd'' None)
     = \<lparr>ret = MHD_NO, queued = None, events = []\<rparr>"
proof -
  have "sublist ''..'' (''/'' @ ''..'' @ ''/etc/passwd'')" by (rule sublist_appendI)
  then have s: "sublist ''..'' (url (GET ''/../etc/passwd'' None))" by (simp add: GET_def)
  show ?thesis
    using s dotdot_refused [OF s, of "clip_sys 1000000 []"] by (simp add: GET_def)
qed

subsection \<open>C9: the unit of the Range header\<close>

text \<open>
  C9: a Range header whose first six characters are not exactly \<open>bytes=\<close> (as in
  \<open>Bytes=0-5\<close>) is handled as if there were no Range header; a response to it has status
  200, starts at offset 0, carries no Content-Range and, for a file that is not empty,
  has the length of the file.
\<close>

theorem range_unit_case_sensitive:
  assumes "take 6 h \<noteq> ''bytes=''"
  shows "handle_request sy (req\<lparr>hdr_range := Some h\<rparr>) = handle_request sy (req\<lparr>hdr_range := None\<rparr>)
     \<and> (\<forall>resp. queued (handle_request sy (req\<lparr>hdr_range := Some h\<rparr>)) = Some resp \<longrightarrow>
          status resp = MHD_HTTP_OK \<and> offset_base (reader_state resp) = 0 \<and>
          map_of (headers resp) ''Content-Range'' = None \<and>
          (0 < file_size (reader_state resp) \<longrightarrow>
             content_length resp = file_size (reader_state resp)))"
proof -
  have eq: "\<And>S. parse_range (Some h) S = parse_range None S"
    using assms by (rule parse_range_other_unit)
  have 1: "handle_request sy (req\<lparr>hdr_range := Some h\<rparr>) = handle_request sy (req\<lparr>hdr_range := None\<rparr>)"
    by (rule handle_request_range_cong) (rule eq)
  have 2: "status resp = MHD_HTTP_OK \<and> offset_base (reader_state resp) = 0 \<and>
          map_of (headers resp) ''Content-Range'' = None \<and>
          (0 < file_size (reader_state resp) \<longrightarrow>
             content_length resp = file_size (reader_state resp))"
    if q: "queued (handle_request sy (req\<lparr>hdr_range := Some h\<rparr>)) = Some resp" for resp
  proof -
    from q obtain S f start end' p where
      pr: "parse_range (hdr_range (req\<lparr>hdr_range := Some h\<rparr>)) S = Some (start, end', p)"
      and sp: "status resp = (if p then MHD_HTTP_PARTIAL_CONTENT else MHD_HTTP_OK)"
      and cl: "content_length resp = end' - start + 1"
      and hs: "headers resp = [(''Content-Type'', mime_type (url (req\<lparr>hdr_range := Some h\<rparr>))),
                       (''Accept-Ranges'', ''bytes''), (''Access-Control-Allow-Origin'', ''*'')]
                      @ (if p then [(''Content-Range'', content_range start end' S)] else [])"
      and rs: "reader_state resp = \<lparr>file_ptr = Some f, offset_base = start, file_size = S,
              total_sent = 0, since_last = 0, last_print = clock sy,
              estimated_bitrate = query_bitrate (arg_bitrate (req\<lparr>hdr_range := Some h\<rparr>)),
              target_fps = query_fps (arg_fps (req\<lparr>hdr_range := Some h\<rparr>))\<rparr>"
      by (rule served_response)
    from pr eq [of S] have v: "start = 0" "end' = (if 0 < S then S - 1 else 0)" "\<not> p"
      by (simp_all add: parse_range_def)
    show ?thesis
      by (simp add: sp cl hs rs v)
  qed
  from 1 2 show ?thesis by blast
qed

theorem range_unit_case_sensitive_witness:
  "handle_request (clip_sys 1000000 []) (GET ''/clip.mp4'' (Some ''Bytes=0-5''))
     = handle_request (clip_sys 1000000 []) (GET ''/clip.mp4'' None)
   \<and> queued (handle_request (clip_sys 1000000 []) (GET ''/clip.mp4'' (Some ''Bytes=0-5'')))
      = Some \<lparr>status = 200, content_length = 1000000,
           headers = [(''Content-Type'', ''video/mp4''), (''Accept-Ranges'', ''bytes''),
                      (''Access-Control-Allow-Origin'', ''*'')],
           reader_state = \<lparr>file_ptr = Some [], offset_base = 0, file_size = 1000000,
              total_sent = 0, since_last = 0, last_print = 0, estimated_bitrate = 8000000,
              target_fps = 60\<rparr>\<rparr>"
proof -
  have u: "take 6 ''Bytes=0-5'' \<noteq> ''bytes=''" by simp
  show ?thesis
    using range_unit_case_sensitive [OF u, where sy = "clip_sys 1000000 []"
        and req = "GET ''/clip.mp4'' None"]
    by (simp add: handler_defs c_library_defs)
qed

subsection \<open>C10: characters after a number\<close>

text \<open>
  C10: in \<open>bytes=<a><j1>-<b><j2>\<close>, where \<open>a\<close> and \<open>b\<close> are runs of decimal digits
  (\<open>a\<close> empty in the suffix form, which then has no \<open>j1\<close>), \<open>j1\<close> holds no dash and
  neither \<open>j1\<close> nor \<open>j2\<close> starts with a digit, the characters \<open>j1\<close> and \<open>j2\<close> are
  ignored: the request is handled exactly as \<open>bytes=<a>-<b>\<close> is. In the form with a
  start, the range read is the value of \<open>a\<close> and the value of \<open>b\<close>, accepted unless
  the start is beyond the end or not inside the file; so \<open>bytes=0-99xyz\<close> is the
  range from 0 to 99.
\<close>

theorem range_fields_ignore_trailing:
  assumes "\<forall>c \<in> set a. isdigit_c c" and "\<forall>c \<in> set b. isdigit_c c" and "b \<noteq> []"
    and "CHR ''-'' \<notin> set j1" and "j1 = [] \<or> \<not> isdigit_c (hd j1)"
    and "a = [] \<longrightarrow> j1 = []" and "j2 = [] \<or> \<not> isdigit_c (hd j2)"
  shows "handle_request sy (req\<lparr>hdr_range := Some (''bytes='' @ a @ j1 @ ''-'' @ b @ j2)\<rparr>)
           = handle_request sy (req\<lparr>hdr_range := Some (''bytes='' @ a @ ''-'' @ b)\<rparr>)
     \<and> (a \<noteq> [] \<longrightarrow> dec_value a < 2 ^ 64 \<longrightarrow> dec_value b < 2 ^ 64 \<longrightarrow>
          parse_range (Some (''bytes='' @ a @ j1 @ ''-'' @ b @ j2)) S =
            (if dec_value b < dec_value a \<or> unat S \<le> dec_value a then None
             else Some (word_of_nat (dec_value a), word_of_nat (dec_value b), True)))"
proof -
  note j = parse_range_junk [OF assms]
  have 1: "handle_request sy (req\<lparr>hdr_range := Some (''bytes='' @ a @ j1 @ ''-'' @ b @ j2)\<rparr>)
           = handle_request sy (req\<lparr>hdr_range := Some (''bytes='' @ a @ ''-'' @ b)\<rparr>)"
    by (rule handle_request_range_cong) (rule j)
  have 2: "parse_range (Some (''bytes='' @ a @ j1 @ ''-'' @ b @ j2)) S =
            (if dec_value b < dec_value a \<or> unat S \<le> dec_value a then None
             else Some (word_of_nat (dec_value a), word_of_nat (dec_value b), True))"
    if "a \<noteq> []" "dec_value a < 2 ^ 64" "dec_value b < 2 ^ 64"
    using j [of S] parse_range_digits [OF assms(1,2) that(1) assms(3) that(2,3), of S]
    by simp
  from 1 2 show ?thesis by blast
qed

theorem range_fields_ignore_trailing_witness:
  "handle_request (clip_sys 1000000 []) (GET ''/clip.mp4'' (Some ''bytes=0-99xyz''))
     = handle_request (clip_sys 1000000 []) (GET ''/clip.mp4'' (Some ''bytes=0-99''))
   \<and> parse_range (Some ''bytes=0-99xyz'') 1000000 = Some (0, 99, True)"
proof -
  have a: "\<forall>c \<in> set ''0''. isdigit_c c" and b: "\<forall>c \<in> set ''99''. isdigit_c c"
    and n: "''99'' \<noteq> []" and j1: "CHR ''-'' \<notin> set []" "[] = [] \<or> \<not> isdigit_c (hd [])"
    and e: "''0'' = [] \<longrightarrow> [] = []" and j2: "''xyz'' = [] \<or> \<not> isdigit_c (hd ''xyz'')"
    by (simp_all add: isdigit_c_def)
  show ?thesis
    using range_fields_ignore_trailing [OF a b n j1 e j2, where sy = "clip_sys 1000000 []"
        and req = "GET ''/clip.mp4'' None" and S = 1000000]
    by (simp add: GET_def dec_value_def digit_val_def)
qed

end
